theory Spec2Isabelle
  imports Complex_Main "HOL-Library.Word"
begin

section \<open>Dense matrices\<close>

text \<open>
  The layers compute on Armadillo matrices (\<open>arma::mat\<close>): a number of rows, a number
  of columns and the elements in column-major order. Elements are \<open>double\<close> in the
  source and real numbers here; the properties below are about which operations are
  applied to which operands, not about rounding. Armadillo raises
  \<open>std::logic_error\<close> when an elementwise operation meets operands of different
  sizes; that is the error \<open>IncompatibleSize\<close>. An access past the end of a
  \<open>std::vector\<close> or of a matrix is \<open>IndexOutOfBounds\<close>.
\<close>

datatype error = IncompatibleSize | IndexOutOfBounds

record mat =
  n_rows :: nat
  n_cols :: nat
  mem :: "real list"

definition wf_mat :: "mat \<Rightarrow> bool" where
  "wf_mat m = (length (mem m) = n_rows m * n_cols m)"

text \<open>A default-constructed matrix: no rows, no columns.\<close>

definition empty_mat :: mat where
  "empty_mat = \<lparr>n_rows = 0, n_cols = 0, mem = []\<rparr>"

definition same_size :: "mat \<Rightarrow> mat \<Rightarrow> bool" where
  "same_size x y = (n_rows x = n_rows y \<and> n_cols x = n_cols y)"

text \<open>\<open>x % y\<close>: the elementwise (Schur) product.\<close>

definition schur :: "mat \<Rightarrow> mat \<Rightarrow> error + mat" where
  "schur x y =
     (if same_size x y then Inr (x\<lparr>mem := map2 (*) (mem x) (mem y)\<rparr>)
      else Inl IncompatibleSize)"

text \<open>\<open>x + y\<close> and \<open>x += y\<close> on matrices.\<close>

definition mat_plus :: "mat \<Rightarrow> mat \<Rightarrow> error + mat" where
  "mat_plus x y =
     (if same_size x y then Inr (x\<lparr>mem := map2 (+) (mem x) (mem y)\<rparr>)
      else Inl IncompatibleSize)"

text \<open>\<open>m.transform(f)\<close> applies \<open>f\<close> to every element.\<close>

definition transform :: "(real \<Rightarrow> real) \<Rightarrow> mat \<Rightarrow> mat" where
  "transform f m = m\<lparr>mem := map f (mem m)\<rparr>"

text \<open>\<open>m * s\<close>, \<open>s * m\<close>, \<open>m + s\<close> and \<open>s - m\<close> for a scalar \<open>s\<close>.\<close>

definition mat_times_scalar :: "mat \<Rightarrow> real \<Rightarrow> mat" where
  "mat_times_scalar m s = transform (\<lambda>v. v * s) m"

definition scalar_times_mat :: "real \<Rightarrow> mat \<Rightarrow> mat" where
  "scalar_times_mat s m = transform (\<lambda>v. s * v) m"

definition mat_plus_scalar :: "mat \<Rightarrow> real \<Rightarrow> mat" where
  "mat_plus_scalar m s = transform (\<lambda>v. v + s) m"

definition scalar_minus_mat :: "real \<Rightarrow> mat \<Rightarrow> mat" where
  "scalar_minus_mat s m = transform (\<lambda>v. s - v) m"

text \<open>
  \<open>arma::randu(r, c)\<close> fills an \<open>r\<close> by \<open>c\<close> matrix with draws from the uniform
  distribution on the unit interval. The generator is the explicit argument \<open>rng\<close>:
  \<open>rng k\<close> is the \<open>k\<close>-th number drawn by this call.
\<close>

definition randu :: "(nat \<Rightarrow> real) \<Rightarrow> nat \<Rightarrow> nat \<Rightarrow> mat" where
  "randu rng r c = \<lparr>n_rows = r, n_cols = c, mem = map rng [0..<r * c]\<rparr>"

text \<open>
  The keep-mask of both dropout layers: \<open>randu\<close>, then
  \<open>mask.transform([&](double val) { return (val > ratio); })\<close>, the comparison
  converted back to \<open>double\<close>.
\<close>

definition keep_mask :: "real \<Rightarrow> (nat \<Rightarrow> real) \<Rightarrow> nat \<Rightarrow> nat \<Rightarrow> mat" where
  "keep_mask ratio rng r c = transform (\<lambda>val. if val > ratio then 1 else 0) (randu rng r c)"


section \<open>Dropout (\<open>dropout_impl.hpp\<close>)\<close>

text \<open>
  The fields of \<open>DropoutType\<close>. \<open>training\<close> is the mode flag the class inherits from
  \<open>Layer\<close> and reads as \<open>this->training\<close>.
\<close>

record Dropout =
  dropout_ratio :: real
  dropout_scale :: real
  dropout_mask :: mat
  dropout_training :: bool

text \<open>
  The constructor initialises \<open>ratio\<close> and \<open>scale(1.0 / (1.0 - ratio))\<close>; the mask is
  a default-constructed matrix. The mode flag is initialised by the constructor of the
  base class \<open>Layer\<close> (\<open>layer.hpp\<close>), whose value is the argument \<open>base_training\<close>.
  For \<open>ratio = 1\<close> the quotient is the floating-point infinity in the source and 0
  here; the properties that mention \<open>scale\<close> exclude that ratio.
\<close>

definition DropoutType :: "bool \<Rightarrow> real \<Rightarrow> Dropout" where
  "DropoutType base_training ratio =
     \<lparr>dropout_ratio = ratio, dropout_scale = 1 / (1 - ratio),
      dropout_mask = empty_mat, dropout_training = base_training\<rparr>"

definition Dropout_Forward ::
  "Dropout \<Rightarrow> (nat \<Rightarrow> real) \<Rightarrow> mat \<Rightarrow> error + (mat \<times> Dropout)" where
  "Dropout_Forward l rng input =
     (if \<not> dropout_training l then Inr (input, l)
      else
        let l' = l\<lparr>dropout_mask :=
                    keep_mask (dropout_ratio l) rng (n_rows input) (n_cols input)\<rparr>
        in case schur input (dropout_mask l') of
             Inl e \<Rightarrow> Inl e
           | Inr m \<Rightarrow> Inr (mat_times_scalar m (dropout_scale l'), l'))"

definition Dropout_Backward :: "Dropout \<Rightarrow> mat \<Rightarrow> mat \<Rightarrow> error + mat" where
  "Dropout_Backward l input gy =
     (case schur gy (dropout_mask l) of
        Inl e \<Rightarrow> Inl e
      | Inr m \<Rightarrow> Inr (mat_times_scalar m (dropout_scale l)))"



section \<open>AlphaDropout (\<open>alpha_dropout_impl.hpp\<close>)\<close>

text \<open>
  \<open>AlphaDropoutType\<close> keeps its own mode flag \<open>deterministic\<close> (true means testing)
  and the coefficients \<open>a\<close> and \<open>b\<close> of the affine correction.
\<close>

record AlphaDropout =
  alpha_ratio :: real
  alpha_alphaDash :: real
  alpha_deterministic :: bool
  alpha_a :: real
  alpha_b :: real
  alpha_mask :: mat

text \<open>
  The constructor initialises \<open>ratio(ratio)\<close>, \<open>alphaDash(alphaDash)\<close> and
  \<open>deterministic(false)\<close>, and then calls \<open>Ratio(ratio)\<close>. \<open>Ratio\<close> is the setter
  declared in \<open>alpha_dropout.hpp\<close>; the pair \<open>ab\<close> stands for the coefficients it
  leaves in \<open>a\<close> and \<open>b\<close>.
\<close>

definition AlphaDropoutType :: "real \<times> real \<Rightarrow> real \<Rightarrow> real \<Rightarrow> AlphaDropout" where
  "AlphaDropoutType ab ratio alphaDash =
     \<lparr>alpha_ratio = ratio, alpha_alphaDash = alphaDash, alpha_deterministic = False,
      alpha_a = fst ab, alpha_b = snd ab, alpha_mask = empty_mat\<rparr>"

text \<open>\<open>output = (input % mask + alphaDash * (1 - mask)) * a + b\<close> in the stochastic branch.\<close>

definition AlphaDropout_Forward ::
  "AlphaDropout \<Rightarrow> (nat \<Rightarrow> real) \<Rightarrow> mat \<Rightarrow> error + (mat \<times> AlphaDropout)" where
  "AlphaDropout_Forward l rng input =
     (if alpha_deterministic l then Inr (input, l)
      else
        let l' = l\<lparr>alpha_mask :=
                    keep_mask (alpha_ratio l) rng (n_rows input) (n_cols input)\<rparr>
        in case schur input (alpha_mask l') of
             Inl e \<Rightarrow> Inl e
           | Inr kept \<Rightarrow>
               (case mat_plus kept
                       (scalar_times_mat (alpha_alphaDash l')
                          (scalar_minus_mat 1 (alpha_mask l'))) of
                  Inl e \<Rightarrow> Inl e
                | Inr x \<Rightarrow>
                    Inr (mat_plus_scalar (mat_times_scalar x (alpha_a l')) (alpha_b l'), l')))"

definition AlphaDropout_Backward :: "AlphaDropout \<Rightarrow> mat \<Rightarrow> mat \<Rightarrow> error + mat" where
  "AlphaDropout_Backward l input gy =
     (case schur gy (alpha_mask l) of
        Inl e \<Rightarrow> Inl e
      | Inr m \<Rightarrow> Inr (mat_times_scalar m (alpha_a l)))"


section \<open>AddMerge (\<open>add_merge_impl.hpp\<close>)\<close>

text \<open>
  \<open>AddMergeType\<close> holds pointers to child layers of any class and calls their virtual
  \<open>Forward\<close>, \<open>Backward\<close> and \<open>Gradient\<close>. A child is its own state \<open>'s\<close>, the three
  methods as functions of that state, and the three buffers the base class gives every
  layer: \<open>OutputParameter()\<close>, \<open>Delta()\<close> and \<open>Gradient()\<close>. A method returns the matrix it
  writes through its last argument and the state it leaves, or fails.
\<close>

record 's Layer =
  layer_state :: 's
  layer_Forward :: "'s \<Rightarrow> mat \<Rightarrow> error + (mat \<times> 's)"
  layer_Backward :: "'s \<Rightarrow> mat \<Rightarrow> mat \<Rightarrow> error + (mat \<times> 's)"
  layer_Gradient :: "'s \<Rightarrow> mat \<Rightarrow> mat \<Rightarrow> error + (mat \<times> 's)"
  layer_outputParameter :: mat
  layer_delta :: mat
  layer_gradient :: mat

text \<open>\<open>c->Forward(input, c->OutputParameter())\<close>\<close>

definition child_Forward :: "'s Layer \<Rightarrow> mat \<Rightarrow> error + 's Layer" where
  "child_Forward c input =
     (case layer_Forward c (layer_state c) input of
        Inl e \<Rightarrow> Inl e
      | Inr (out, s) \<Rightarrow> Inr (c\<lparr>layer_state := s, layer_outputParameter := out\<rparr>))"

text \<open>\<open>c->Backward(c->OutputParameter(), gy, c->Delta())\<close>\<close>

definition child_Backward :: "'s Layer \<Rightarrow> mat \<Rightarrow> error + 's Layer" where
  "child_Backward c gy =
     (case layer_Backward c (layer_state c) (layer_outputParameter c) gy of
        Inl e \<Rightarrow> Inl e
      | Inr (d, s) \<Rightarrow> Inr (c\<lparr>layer_state := s, layer_delta := d\<rparr>))"

text \<open>\<open>c->Gradient(input, error, c->Gradient())\<close>\<close>

definition child_Gradient :: "'s Layer \<Rightarrow> mat \<Rightarrow> mat \<Rightarrow> error + 's Layer" where
  "child_Gradient c input err =
     (case layer_Gradient c (layer_state c) input err of
        Inl e \<Rightarrow> Inl e
      | Inr (g, s) \<Rightarrow> Inr (c\<lparr>layer_state := s, layer_gradient := g\<rparr>))"

text \<open>
  The loops \<open>for (size_t i = 0; i < network.size(); ++i)\<close> over the children, in order;
  the first child that fails ends the loop.
\<close>

fun for_each_child :: "('s Layer \<Rightarrow> error + 's Layer) \<Rightarrow> 's Layer list \<Rightarrow> error + 's Layer list" where
  "for_each_child f [] = Inr []"
| "for_each_child f (c # cs) =
     (case f c of
        Inl e \<Rightarrow> Inl e
      | Inr c' \<Rightarrow>
          (case for_each_child f cs of
             Inl e \<Rightarrow> Inl e
           | Inr cs' \<Rightarrow> Inr (c' # cs')))"

text \<open>
  \<open>for (size_t i = 1; i < network.size(); ++i) output += buffer(network[i])\<close>, started
  on the first child's buffer.
\<close>

fun accumulate_buffers :: "mat \<Rightarrow> mat list \<Rightarrow> error + mat" where
  "accumulate_buffers output [] = Inr output"
| "accumulate_buffers output (x # xs) =
     (case mat_plus output x of
        Inl e \<Rightarrow> Inl e
      | Inr output' \<Rightarrow> accumulate_buffers output' xs)"

record 's AddMerge =
  merge_network :: "'s Layer list"
  merge_model :: bool
  merge_run :: bool
  merge_ownsLayers :: bool

text \<open>The two constructors; the list of children starts empty.\<close>

definition AddMergeType :: "bool \<Rightarrow> bool \<Rightarrow> 's AddMerge" where
  "AddMergeType model run =
     \<lparr>merge_network = [], merge_model = model, merge_run = run, merge_ownsLayers = (\<not> model)\<rparr>"

definition AddMergeType_owns :: "bool \<Rightarrow> bool \<Rightarrow> bool \<Rightarrow> 's AddMerge" where
  "AddMergeType_owns model run ownsLayers =
     \<lparr>merge_network = [], merge_model = model, merge_run = run, merge_ownsLayers = ownsLayers\<rparr>"

text \<open>
  \<open>Forward\<close>: the children are run on the input when \<open>run\<close> is set; then the output
  is the first child's output buffer plus those of the others. \<open>network.front()\<close> of
  an empty vector has no defined result: \<open>IndexOutOfBounds\<close>.
\<close>

definition Forward_children :: "'s AddMerge \<Rightarrow> mat \<Rightarrow> error + 's Layer list" where
  "Forward_children am input =
     (if merge_run am
      then for_each_child (\<lambda>c. child_Forward c input) (merge_network am)
      else Inr (merge_network am))"

definition AddMerge_Forward :: "'s AddMerge \<Rightarrow> mat \<Rightarrow> error + (mat \<times> 's AddMerge)" where
  "AddMerge_Forward am input =
     (case Forward_children am input of
        Inl e \<Rightarrow> Inl e
      | Inr cs \<Rightarrow>
          (case cs of
             [] \<Rightarrow> Inl IndexOutOfBounds
           | c # rest \<Rightarrow>
               (case accumulate_buffers (layer_outputParameter c)
                       (map layer_outputParameter rest) of
                  Inl e \<Rightarrow> Inl e
                | Inr output \<Rightarrow> Inr (output, am\<lparr>merge_network := cs\<rparr>))))"

definition AddMerge_Backward :: "'s AddMerge \<Rightarrow> mat \<Rightarrow> mat \<Rightarrow> error + (mat \<times> 's AddMerge)" where
  "AddMerge_Backward am input gy =
     (if merge_run am then
        (case for_each_child (\<lambda>c. child_Backward c gy) (merge_network am) of
           Inl e \<Rightarrow> Inl e
         | Inr cs \<Rightarrow>
             (case cs of
                [] \<Rightarrow> Inl IndexOutOfBounds
              | c # rest \<Rightarrow>
                  (case accumulate_buffers (layer_delta c) (map layer_delta rest) of
                     Inl e \<Rightarrow> Inl e
                   | Inr g \<Rightarrow> Inr (g, am\<lparr>merge_network := cs\<rparr>))))
      else Inr (gy, am))"

text \<open>The overload of \<open>Backward\<close> for the child at \<open>index\<close> alone.\<close>

definition AddMerge_Backward_index ::
  "'s AddMerge \<Rightarrow> mat \<Rightarrow> mat \<Rightarrow> nat \<Rightarrow> error + (mat \<times> 's AddMerge)" where
  "AddMerge_Backward_index am input gy index =
     (if index < length (merge_network am) then
        (case child_Backward (merge_network am ! index) gy of
           Inl e \<Rightarrow> Inl e
         | Inr c \<Rightarrow> Inr (layer_delta c, am\<lparr>merge_network := (merge_network am)[index := c]\<rparr>))
      else Inl IndexOutOfBounds)"

text \<open>\<open>Gradient\<close> writes nothing through its own \<open>gradient\<close> argument.\<close>

definition AddMerge_Gradient :: "'s AddMerge \<Rightarrow> mat \<Rightarrow> mat \<Rightarrow> error + 's AddMerge" where
  "AddMerge_Gradient am input err =
     (if merge_run am then
        (case for_each_child (\<lambda>c. child_Gradient c input err) (merge_network am) of
           Inl e \<Rightarrow> Inl e
         | Inr cs \<Rightarrow> Inr (am\<lparr>merge_network := cs\<rparr>))
      else Inr am)"

definition AddMerge_Gradient_index ::
  "'s AddMerge \<Rightarrow> mat \<Rightarrow> mat \<Rightarrow> nat \<Rightarrow> error + 's AddMerge" where
  "AddMerge_Gradient_index am input err index =
     (if index < length (merge_network am) then
        (case child_Gradient (merge_network am ! index) input err of
           Inl e \<Rightarrow> Inl e
         | Inr c \<Rightarrow> Inr (am\<lparr>merge_network := (merge_network am)[index := c]\<rparr>))
      else Inl IndexOutOfBounds)"



section \<open>Linear (\<open>linear.hpp\<close>)\<close>

text \<open>
  \<open>size_t\<close> is a 64-bit unsigned integer and \<open>int\<close> a 32-bit signed one (the LP64
  data model of the platforms mlpack builds on).
\<close>

type_synonym size_t = "64 word"

record Linear =
  linear_inputDimensions :: "size_t list"
  linear_outputDimensions :: "size_t list"
  linear_inSize :: size_t
  linear_outSize :: size_t
  linear_weights :: mat
  linear_weight :: mat
  linear_bias :: mat

text \<open>
  \<open>std::accumulate(first, last, 0)\<close>: the accumulator has the type of the initial
  value \<open>0\<close>, which is \<open>int\<close>, and the operation is the default one, addition. Each
  step computes \<open>init + *first\<close> in \<open>size_t\<close> (the \<open>int\<close> is converted, keeping its
  sign) and stores the sum back into the \<open>int\<close>, which keeps the low 32 bits.
\<close>

fun accumulate :: "size_t list \<Rightarrow> 32 word \<Rightarrow> 32 word" where
  "accumulate [] init = init"
| "accumulate (x # xs) init = accumulate xs (ucast ((scast init :: size_t) + x))"

text \<open>
  \<open>ComputeOutputDimensions\<close> stores the accumulated value in \<open>inSize\<close> (an \<open>int\<close>
  converted to \<open>size_t\<close>), makes \<open>outputDimensions\<close> a vector of as many ones as there
  are input dimensions and writes \<open>outSize\<close> at index 0, which is past the end when
  there is no input dimension.
\<close>

definition Linear_ComputeOutputDimensions :: "Linear \<Rightarrow> error + Linear" where
  "Linear_ComputeOutputDimensions l =
     (let l1 = l\<lparr>linear_inSize := scast (accumulate (linear_inputDimensions l) 0)\<rparr>;
          l2 = l1\<lparr>linear_outputDimensions :=
                    replicate (length (linear_inputDimensions l1)) 1\<rparr>
      in if 0 < length (linear_outputDimensions l2)
         then Inr (l2\<lparr>linear_outputDimensions :=
                        (linear_outputDimensions l2)[0 := linear_outSize l2]\<rparr>)
         else Inl IndexOutOfBounds)"

definition Linear_WeightSize :: "Linear \<Rightarrow> size_t" where
  "Linear_WeightSize l = (linear_inSize l * linear_outSize l) + linear_outSize l"

text \<open>
  The number of elements of a tensor with the given extents: their product. This is the
  size the spec calls the total element count implied by a dimension descriptor.
\<close>

definition element_count :: "size_t list \<Rightarrow> size_t" where
  "element_count dims = foldl (*) 1 dims"


section \<open>The network (\<open>ffn.hpp\<close>)\<close>

text \<open>
  The members of \<open>FFN\<close>. The output layer, the initialisation rule and the layers are
  of template or polymorphic types: the type variables \<open>'o\<close>, \<open>'i\<close> and \<open>'l\<close>.
\<close>

record ('o, 'i, 'l) FFN =
  ffn_outputLayer :: 'o
  ffn_initializeRule :: 'i
  ffn_network :: "'l list"
  ffn_parameters :: mat
  ffn_inputDimensions :: "size_t list"
  ffn_predictors :: mat
  ffn_responses :: mat
  ffn_error :: mat
  ffn_training :: bool
  ffn_layerMemoryIsSet :: bool
  ffn_inputDimensionsAreSet :: bool
  ffn_totalInputSize :: size_t
  ffn_totalOutputSize :: size_t
  ffn_layerOutputMatrix :: mat
  ffn_layerOutputs :: "mat list"
  ffn_deltaMatrix :: mat
  ffn_layerDeltas :: "mat list"
  ffn_layerGradients :: "mat list"



definition NumFunctions :: "('o, 'i, 'l) FFN \<Rightarrow> nat" where
  "NumFunctions net = n_cols (ffn_responses net)"

text \<open>
  The two overloads of \<open>InputDimensions()\<close>. Each returns a reference to the member
  \<open>inputDimensions\<close>: the value returned here is the vector the reference reads, the
  network returned is the network the call leaves. The overload for a non-const network
  (the mutable getter) has the body \<open>return inputDimensions;\<close>. The overload for a const
  network has the body \<open>inputDimensionsAreSet = false; return inputDimensions;\<close>.
\<close>

definition InputDimensions :: "('o, 'i, 'l) FFN \<Rightarrow> size_t list \<times> ('o, 'i, 'l) FFN" where
  "InputDimensions net = (ffn_inputDimensions net, net)"

definition InputDimensions_const :: "('o, 'i, 'l) FFN \<Rightarrow> size_t list \<times> ('o, 'i, 'l) FFN" where
  "InputDimensions_const net =
     (ffn_inputDimensions net, net\<lparr>ffn_inputDimensionsAreSet := False\<rparr>)"


section \<open>The objective function\<close>

text \<open>
  \<open>m.cols(first, first + count - 1)\<close>: the \<open>count\<close> columns of \<open>m\<close> from column
  \<open>first\<close> on, which must exist.
\<close>

definition cols :: "mat \<Rightarrow> nat \<Rightarrow> nat \<Rightarrow> error + mat" where
  "cols m first count =
     (if first + count \<le> n_cols m
      then Inr \<lparr>n_rows = n_rows m, n_cols = count,
                mem = take (n_rows m * count) (drop (n_rows m * first) (mem m))\<rparr>
      else Inl IndexOutOfBounds)"

text \<open>
  Modelled from the spec: the two forms of \<open>FFN::Evaluate\<close>, which \<open>ffn.hpp\<close> declares
  and \<open>ffn_impl.hpp\<close> defines. The spec has the windowed form produce the value of
  invoking Forward and Backward on exactly the slice \<open>begin, ..., begin + batchSize - 1\<close>
  of the stored predictors and responses, and the other form evaluate the whole stored
  dataset. The pass itself (the layers' \<open>Forward\<close>, then the loss of the output layer
  against the targets, which \<open>Backward\<close> returns) is the argument \<open>pass\<close>: from the
  parameters, the inputs and the targets to the loss, or a failure.
\<close>

definition Evaluate_window ::
  "(mat \<Rightarrow> mat \<Rightarrow> mat \<Rightarrow> error + real) \<Rightarrow> ('o, 'i, 'l) FFN \<Rightarrow> mat \<Rightarrow> nat \<Rightarrow> nat \<Rightarrow> error + real" where
  "Evaluate_window pass net parameters begin batchSize =
     (case cols (ffn_predictors net) begin batchSize of
        Inl e \<Rightarrow> Inl e
      | Inr inputs \<Rightarrow>
          (case cols (ffn_responses net) begin batchSize of
             Inl e \<Rightarrow> Inl e
           | Inr targets \<Rightarrow> pass parameters inputs targets))"

text \<open>
  Modelled from the spec: the whole-dataset form of \<open>FFN::Evaluate\<close> (see above), one
  pass over all the stored predictors and responses.
\<close>

definition Evaluate ::
  "(mat \<Rightarrow> mat \<Rightarrow> mat \<Rightarrow> error + real) \<Rightarrow> ('o, 'i, 'l) FFN \<Rightarrow> mat \<Rightarrow> error + real" where
  "Evaluate pass net parameters =
     pass parameters (ffn_predictors net) (ffn_responses net)"



section \<open>Example values\<close>

text \<open>
  Two children for concrete runs of \<open>AddMerge\<close>. \<open>scale_child s\<close> has no state and
  multiplies by \<open>s\<close> in \<open>Forward\<close> and in \<open>Backward\<close>. Every method of
  \<open>failing_child\<close> fails, so no call of one can go unnoticed.
\<close>

definition scale_child :: "real \<Rightarrow> unit Layer" where
  "scale_child s =
     \<lparr>layer_state = (),
      layer_Forward = (\<lambda>_ x. Inr (mat_times_scalar x s, ())),
      layer_Backward = (\<lambda>_ _ gy. Inr (mat_times_scalar gy s, ())),
      layer_Gradient = (\<lambda>_ _ _. Inr (empty_mat, ())),
      layer_outputParameter = empty_mat, layer_delta = empty_mat,
      layer_gradient = empty_mat\<rparr>"

definition failing_child :: "unit Layer" where
  "failing_child =
     \<lparr>layer_state = (),
      layer_Forward = (\<lambda>_ _. Inl IncompatibleSize),
      layer_Backward = (\<lambda>_ _ _. Inl IncompatibleSize),
      layer_Gradient = (\<lambda>_ _ _. Inl IncompatibleSize),
      layer_outputParameter = empty_mat, layer_delta = empty_mat,
      layer_gradient = empty_mat\<rparr>"

text \<open>
  A generator whose first draw is \<open>3/4\<close> and whose later draws are \<open>1/4\<close>, and a pass
  whose loss is the sum of the inputs minus the sum of the targets.
\<close>

definition example_rng :: "nat \<Rightarrow> real" where
  "example_rng k = (if k = 0 then 3/4 else 1/4)"

definition example_pass :: "mat \<Rightarrow> mat \<Rightarrow> mat \<Rightarrow> error + real" where
  "example_pass parameters inputs targets = Inr (sum_list (mem inputs) - sum_list (mem targets))"

text \<open>A network with two layers, its dimensions resolved and its memory set.\<close>

definition example_net :: "(unit, unit, nat) FFN" where
  "example_net =
     \<lparr>ffn_outputLayer = (), ffn_initializeRule = (), ffn_network = [10, 11],
      ffn_parameters = empty_mat, ffn_inputDimensions = [3, 2],
      ffn_predictors = \<lparr>n_rows = 2, n_cols = 3, mem = [1, 2, 3, 4, 5, 6]\<rparr>,
      ffn_responses = \<lparr>n_rows = 1, n_cols = 3, mem = [0, 1, 0]\<rparr>,
      ffn_error = empty_mat, ffn_training = False, ffn_layerMemoryIsSet = True,
      ffn_inputDimensionsAreSet = True, ffn_totalInputSize = 0, ffn_totalOutputSize = 0,
      ffn_layerOutputMatrix = empty_mat, ffn_layerOutputs = [empty_mat, empty_mat],
      ffn_deltaMatrix = empty_mat, ffn_layerDeltas = [empty_mat, empty_mat],
      ffn_layerGradients = [empty_mat, empty_mat]\<rparr>"




section \<open>Properties\<close>

subsection \<open>Matrices\<close>

lemma same_size_keep_mask:
  "same_size input (keep_mask ratio rng (n_rows input) (n_cols input))"
  by (simp add: same_size_def keep_mask_def transform_def randu_def)

lemma keep_mask_nth:
  "k < r * c \<Longrightarrow> mem (keep_mask ratio rng r c) ! k = (if rng k > ratio then 1 else 0)"
  by (simp add: keep_mask_def transform_def randu_def)

lemma length_keep_mask: "length (mem (keep_mask ratio rng r c)) = r * c"
  by (simp add: keep_mask_def transform_def randu_def)

lemma wf_keep_mask: "wf_mat (keep_mask ratio rng r c)"
  by (simp add: wf_mat_def keep_mask_def transform_def randu_def)

lemma keep_mask_example:
  "keep_mask (1/2) example_rng (Suc 0) 2
     = \<lparr>n_rows = 1, n_cols = 2, mem = [1, 0]\<rparr>"
  by (simp add: keep_mask_def transform_def randu_def upt_rec example_rng_def)

lemma mat_plus_same_size:
  assumes "same_size x acc" and "wf_mat x" and "wf_mat acc"
  shows "\<exists>out. mat_plus acc x = Inr out \<and> same_size out acc \<and> wf_mat out \<and>
           (\<forall>k < n_rows acc * n_cols acc. mem out ! k = mem acc ! k + mem x ! k)"
  using assms by (auto simp: mat_plus_def same_size_def wf_mat_def)

lemma cols_all: "wf_mat m \<Longrightarrow> cols m 0 (n_cols m) = Inr m"
  by (simp add: cols_def wf_mat_def)


subsection \<open>Dropout\<close>

text \<open>
  C4. In evaluation mode (\<open>training\<close> false) \<open>Forward\<close> returns its input as it is,
  for every input and whatever the generator would draw, and leaves the layer,
  in particular its mask, untouched: no mask is drawn.
\<close>

theorem Dropout_Forward_evaluation_identity:
  "\<not> dropout_training l \<Longrightarrow> Dropout_Forward l rng input = Inr (input, l)"
  by (simp add: Dropout_Forward_def)

theorem Dropout_Forward_evaluation_identity_witness:
  "\<not> dropout_training (DropoutType False (1/2)) \<and>
   Dropout_Forward (DropoutType False (1/2)) example_rng
       \<lparr>n_rows = 1, n_cols = 2, mem = [3, -4]\<rparr>
     = Inr (\<lparr>n_rows = 1, n_cols = 2, mem = [3, -4]\<rparr>, DropoutType False (1/2)) \<and>
   dropout_mask (DropoutType False (1/2)) = empty_mat"
  using Dropout_Forward_evaluation_identity
    [of "DropoutType False (1/2)" example_rng "\<lparr>n_rows = 1, n_cols = 2, mem = [3, -4]\<rparr>"]
  by (simp add: DropoutType_def)

text \<open>The constructor's \<open>scale\<close>, and the two methods unfolded.\<close>

lemma DropoutType_scale:
  "dropout_scale (DropoutType t ratio) = 1 / (1 - dropout_ratio (DropoutType t ratio))"
  by (simp add: DropoutType_def)

lemma Dropout_Forward_training:
  "dropout_training l \<Longrightarrow>
   Dropout_Forward l rng input =
     Inr (mat_times_scalar
            (input\<lparr>mem := map2 (*) (mem input)
               (mem (keep_mask (dropout_ratio l) rng (n_rows input) (n_cols input)))\<rparr>)
            (dropout_scale l),
          l\<lparr>dropout_mask := keep_mask (dropout_ratio l) rng (n_rows input) (n_cols input)\<rparr>)"
  by (simp add: Dropout_Forward_def Let_def schur_def same_size_keep_mask)

lemma Dropout_Backward_unfold:
  "Dropout_Backward l input gy =
     (if same_size gy (dropout_mask l)
      then Inr (mat_times_scalar (gy\<lparr>mem := map2 (*) (mem gy) (mem (dropout_mask l))\<rparr>)
                  (dropout_scale l))
      else Inl IncompatibleSize)"
  by (simp add: Dropout_Backward_def schur_def)

lemma schur_scaled_nth:
  assumes "k < length xs" and "length ys = length xs"
  shows "mem (mat_times_scalar (gy\<lparr>mem := map2 (*) xs ys\<rparr>) s) ! k = xs ! k * ys ! k * s"
  using assms by (simp add: mat_times_scalar_def transform_def)

text \<open>
  C5. In training mode \<open>Forward\<close> draws the keep-mask \<open>M\<close> (1 where the draw exceeds
  \<open>ratio\<close>, 0 elsewhere), stores it in the layer and returns \<open>input % M * scale\<close>.
  \<open>Backward\<close> on the layer left by that call returns \<open>gy % M * scale\<close> with the very
  same \<open>M\<close> and the same \<open>scale\<close>, which is \<open>1 / (1 - ratio)\<close> for a layer that still
  has the \<open>scale\<close> its constructor computed; it fails only when \<open>gy\<close> has not the shape
  of the mask, which is the shape of the input. For a well-formed upstream error of that
  shape, element \<open>k\<close> of the result is \<open>gy[k] * M[k] * (1 / (1 - ratio))\<close>. The ratio
  is not 1: there the source's \<open>scale\<close> is the floating-point infinity, which the real
  numbers do not have.
\<close>

theorem Dropout_Backward_same_mask:
  assumes "dropout_training l"
    and "dropout_ratio l \<noteq> 1"
    and "dropout_scale l = 1 / (1 - dropout_ratio l)"
  shows
    "let M = keep_mask (dropout_ratio l) rng (n_rows input) (n_cols input);
         l' = l\<lparr>dropout_mask := M\<rparr>;
         g = mat_times_scalar (gy\<lparr>mem := map2 (*) (mem gy) (mem M)\<rparr>)
               (1 / (1 - dropout_ratio l))
     in Dropout_Forward l rng input =
          Inr (mat_times_scalar (input\<lparr>mem := map2 (*) (mem input) (mem M)\<rparr>)
                 (1 / (1 - dropout_ratio l)), l') \<and>
        Dropout_Backward l' input gy =
          (if same_size gy input then Inr g else Inl IncompatibleSize) \<and>
        (wf_mat gy \<and> same_size gy input \<longrightarrow>
          (\<forall>k < n_rows gy * n_cols gy.
             mem g ! k = mem gy ! k * (if rng k > dropout_ratio l then 1 else 0)
                           * (1 / (1 - dropout_ratio l))))"
proof -
  define M where "M = keep_mask (dropout_ratio l) rng (n_rows input) (n_cols input)"
  define g where "g = mat_times_scalar (gy\<lparr>mem := map2 (*) (mem gy) (mem M)\<rparr>)
                        (1 / (1 - dropout_ratio l))"
  have fwd: "Dropout_Forward l rng input =
      Inr (mat_times_scalar (input\<lparr>mem := map2 (*) (mem input) (mem M)\<rparr>)
             (1 / (1 - dropout_ratio l)), l\<lparr>dropout_mask := M\<rparr>)"
    using assms by (simp add: Dropout_Forward_training M_def)
  have sz: "same_size gy M = same_size gy input"
    by (simp add: same_size_def M_def keep_mask_def transform_def randu_def)
  have bwd: "Dropout_Backward (l\<lparr>dropout_mask := M\<rparr>) input gy =
      (if same_size gy input then Inr g else Inl IncompatibleSize)"
    using assms(3) by (simp add: Dropout_Backward_unfold sz g_def)
  have elems: "mem g ! k = mem gy ! k * (if rng k > dropout_ratio l then 1 else 0)
                 * (1 / (1 - dropout_ratio l))"
    if "wf_mat gy" "same_size gy input" "k < n_rows gy * n_cols gy" for k
  proof -
    have len: "length (mem M) = length (mem gy)"
      using that by (simp add: M_def length_keep_mask wf_mat_def same_size_def)
    have k: "k < length (mem gy)"
      using that by (simp add: wf_mat_def)
    have "mem M ! k = (if rng k > dropout_ratio l then 1 else 0)"
      using that by (simp add: M_def keep_mask_nth same_size_def)
    then show ?thesis
      using schur_scaled_nth [OF k len] by (simp add: g_def)
  qed
  show ?thesis
    unfolding Let_def M_def [symmetric] g_def [symmetric]
    using fwd bwd elems by blast
qed

theorem Dropout_Backward_same_mask_witness:
  "dropout_training (DropoutType True (1/2)) \<and>
   dropout_ratio (DropoutType True (1/2)) \<noteq> 1 \<and>
   dropout_scale (DropoutType True (1/2)) = 1 / (1 - dropout_ratio (DropoutType True (1/2))) \<and>
   Dropout_Forward (DropoutType True (1/2)) example_rng
       \<lparr>n_rows = 1, n_cols = 2, mem = [3, -4]\<rparr>
     = Inr (\<lparr>n_rows = 1, n_cols = 2, mem = [6, 0]\<rparr>,
            (DropoutType True (1/2))
              \<lparr>dropout_mask := \<lparr>n_rows = 1, n_cols = 2, mem = [1, 0]\<rparr>\<rparr>) \<and>
   Dropout_Backward
       ((DropoutType True (1/2))\<lparr>dropout_mask := \<lparr>n_rows = 1, n_cols = 2, mem = [1, 0]\<rparr>\<rparr>)
       \<lparr>n_rows = 1, n_cols = 2, mem = [3, -4]\<rparr>
       \<lparr>n_rows = 1, n_cols = 2, mem = [5, 7]\<rparr>
     = Inr \<lparr>n_rows = 1, n_cols = 2, mem = [10, 0]\<rparr>"
  using Dropout_Backward_same_mask
    [of "DropoutType True (1/2)" example_rng
        "\<lparr>n_rows = 1, n_cols = 2, mem = [3, -4]\<rparr>"
        "\<lparr>n_rows = 1, n_cols = 2, mem = [5, 7]\<rparr>"]
  by (simp add: DropoutType_def Let_def keep_mask_example mat_times_scalar_def transform_def
      same_size_def)


subsection \<open>AlphaDropout\<close>

lemma alpha_fuse:
  "map (f \<circ> (\<lambda>(x, y). x + y)) (zip (map2 (*) xs ms) (map g ms))
     = map2 (\<lambda>x m. f (x * m + g m)) xs (ms :: real list)"
  by (induction xs ms rule: list_induct2') auto

lemma AlphaDropout_Forward_stochastic:
  "\<not> alpha_deterministic l \<Longrightarrow>
   AlphaDropout_Forward l rng input =
     Inr (input\<lparr>mem :=
            map2 (\<lambda>x m. (x * m + alpha_alphaDash l * (1 - m)) * alpha_a l + alpha_b l)
              (mem input)
              (mem (keep_mask (alpha_ratio l) rng (n_rows input) (n_cols input)))\<rparr>,
          l\<lparr>alpha_mask := keep_mask (alpha_ratio l) rng (n_rows input) (n_cols input)\<rparr>)"
proof -
  let ?M = "keep_mask (alpha_ratio l) rng (n_rows input) (n_cols input)"
  assume nd: "\<not> alpha_deterministic l"
  have s1: "schur input ?M = Inr (input\<lparr>mem := map2 (*) (mem input) (mem ?M)\<rparr>)"
    by (simp add: schur_def same_size_keep_mask)
  have s2: "same_size (input\<lparr>mem := map2 (*) (mem input) (mem ?M)\<rparr>)
              (scalar_times_mat (alpha_alphaDash l) (scalar_minus_mat 1 ?M))"
    by (simp add: same_size_def scalar_times_mat_def scalar_minus_mat_def transform_def
        keep_mask_def randu_def)
  have s3: "mem (scalar_times_mat (alpha_alphaDash l) (scalar_minus_mat 1 ?M))
              = map (\<lambda>m. alpha_alphaDash l * (1 - m)) (mem ?M)"
    by (simp add: scalar_times_mat_def scalar_minus_mat_def transform_def o_def)
  show ?thesis
    using nd alpha_fuse [of "\<lambda>v. v * alpha_a l + alpha_b l" "mem input" "mem ?M"
                            "\<lambda>m. alpha_alphaDash l * (1 - m)"]
    by (simp add: AlphaDropout_Forward_def Let_def s1 mat_plus_def s2 s3
        mat_plus_scalar_def mat_times_scalar_def transform_def o_def)
qed

lemma keep_mask_all_kept:
  assumes "\<forall>k < r * c. rng k > ratio"
  shows "keep_mask ratio rng r c = \<lparr>n_rows = r, n_cols = c, mem = replicate (r * c) 1\<rparr>"
  using assms
  by (auto simp: keep_mask_def transform_def randu_def list_eq_iff_nth_eq)

lemma AlphaDropout_Forward_ratio_zero:
  assumes "\<not> alpha_deterministic l" and "alpha_ratio l = 0"
    and "\<forall>k < n_rows input * n_cols input. rng k > 0"
    and "wf_mat input"
  shows "AlphaDropout_Forward l rng input =
           Inr (transform (\<lambda>x. x * alpha_a l + alpha_b l) input,
                l\<lparr>alpha_mask := \<lparr>n_rows = n_rows input, n_cols = n_cols input,
                                  mem = replicate (n_rows input * n_cols input) 1\<rparr>\<rparr>)"
proof -
  have km: "keep_mask (alpha_ratio l) rng (n_rows input) (n_cols input)
      = \<lparr>n_rows = n_rows input, n_cols = n_cols input,
         mem = replicate (n_rows input * n_cols input) 1\<rparr>"
    using assms(2,3) by (simp add: keep_mask_all_kept)
  have "map2 (\<lambda>x m. (x * m + alpha_alphaDash l * (1 - m)) * alpha_a l + alpha_b l)
          (mem input) (replicate (length (mem input)) 1)
        = map (\<lambda>x. x * alpha_a l + alpha_b l) (mem input)"
    by (simp add: list_eq_iff_nth_eq)
  then show ?thesis
    using assms(1,4) by (simp add: AlphaDropout_Forward_stochastic km transform_def wf_mat_def)
qed

text \<open>
  C8, as the code has it. A freshly constructed \<open>AlphaDropout\<close> layer is not in
  evaluation mode: its constructor sets \<open>deterministic\<close> to false, and \<open>Forward\<close> on
  the fresh layer draws a keep-mask \<open>M\<close>, stores it and returns
  \<open>(input % M + alphaDash * (1 - M)) * a + b\<close>, whatever coefficients \<open>a\<close>, \<open>b\<close> the
  constructor's call of \<open>Ratio\<close> has left. The layer behaves as in evaluation mode
  (\<open>Forward\<close> returns the input and draws nothing) only once \<open>deterministic\<close> has been
  set to true. A \<open>Dropout\<close> layer, whose mode is the \<open>training\<close> flag of the base
  class, is in evaluation mode after a construction that leaves that flag false:
  its \<open>Forward\<close> returns the input and draws nothing.
\<close>

theorem AlphaDropout_fresh_is_stochastic:
  "alpha_deterministic (AlphaDropoutType ab ratio alphaDash) = False \<and>
   AlphaDropout_Forward (AlphaDropoutType ab ratio alphaDash) rng input =
     Inr (input\<lparr>mem :=
            map2 (\<lambda>x m. (x * m + alphaDash * (1 - m)) * fst ab + snd ab)
              (mem input) (mem (keep_mask ratio rng (n_rows input) (n_cols input)))\<rparr>,
          (AlphaDropoutType ab ratio alphaDash)
            \<lparr>alpha_mask := keep_mask ratio rng (n_rows input) (n_cols input)\<rparr>) \<and>
   AlphaDropout_Forward ((AlphaDropoutType ab ratio alphaDash)\<lparr>alpha_deterministic := True\<rparr>)
       rng input =
     Inr (input, (AlphaDropoutType ab ratio alphaDash)\<lparr>alpha_deterministic := True\<rparr>) \<and>
   Dropout_Forward (DropoutType False ratio) rng input = Inr (input, DropoutType False ratio)"
proof -
  have nd: "\<not> alpha_deterministic (AlphaDropoutType ab ratio alphaDash)"
    by (simp add: AlphaDropoutType_def)
  have dr: "Dropout_Forward (DropoutType False ratio) rng input
              = Inr (input, DropoutType False ratio)"
    by (simp add: Dropout_Forward_def DropoutType_def)
  have "AlphaDropout_Forward ((AlphaDropoutType ab ratio alphaDash)\<lparr>alpha_deterministic := True\<rparr>)
       rng input =
     Inr (input, (AlphaDropoutType ab ratio alphaDash)\<lparr>alpha_deterministic := True\<rparr>)"
    by (simp add: AlphaDropout_Forward_def)
  then show ?thesis
    using nd dr AlphaDropout_Forward_stochastic [OF nd, of rng input]
    by (simp add: AlphaDropoutType_def)
qed

text \<open>
  The claim as it was stated (a fresh \<open>AlphaDropout\<close> layer behaves as in evaluation
  mode, where \<open>Forward\<close> returns its input and leaves the layer as it was) fails on a
  one by two input: the first element is kept and rescaled, the second is replaced,
  and a mask is stored.
\<close>

theorem AlphaDropout_fresh_counterexample:
  "AlphaDropout_Forward (AlphaDropoutType (8/9, 7/9) (1/2) (-7/4))
       example_rng \<lparr>n_rows = 1, n_cols = 2, mem = [3, -4]\<rparr>
     = Inr (\<lparr>n_rows = 1, n_cols = 2, mem = [31/9, -7/9]\<rparr>,
            (AlphaDropoutType (8/9, 7/9) (1/2) (-7/4))
               \<lparr>alpha_mask := \<lparr>n_rows = 1, n_cols = 2, mem = [1, 0]\<rparr>\<rparr>) \<and>
   AlphaDropout_Forward (AlphaDropoutType (8/9, 7/9) (1/2) (-7/4))
       example_rng \<lparr>n_rows = 1, n_cols = 2, mem = [3, -4]\<rparr>
     \<noteq> Inr (\<lparr>n_rows = 1, n_cols = 2, mem = [3, -4]\<rparr>,
            AlphaDropoutType (8/9, 7/9) (1/2) (-7/4))"
  by (simp add: AlphaDropoutType_def AlphaDropout_Forward_def Let_def keep_mask_example
      schur_def same_size_def mat_plus_def scalar_times_mat_def scalar_minus_mat_def
      transform_def mat_plus_scalar_def mat_times_scalar_def)


subsection \<open>AddMerge\<close>

lemma accumulate_buffers_sum:
  assumes "\<forall>x \<in> set xs. same_size x acc \<and> wf_mat x" and "wf_mat acc"
  shows "\<exists>out. accumulate_buffers acc xs = Inr out \<and> same_size out acc \<and> wf_mat out \<and>
     (\<forall>k < n_rows acc * n_cols acc. mem out ! k = mem acc ! k + (\<Sum>x\<leftarrow>xs. mem x ! k))"
  using assms
proof (induction xs arbitrary: acc)
  case Nil
  then show ?case by (simp add: same_size_def)
next
  case (Cons x xs)
  from Cons.prems obtain o1 where o1: "mat_plus acc x = Inr o1" "same_size o1 acc" "wf_mat o1"
     "\<forall>k < n_rows acc * n_cols acc. mem o1 ! k = mem acc ! k + mem x ! k"
    using mat_plus_same_size [of x acc] by auto
  have "\<forall>y \<in> set xs. same_size y o1 \<and> wf_mat y"
    using Cons.prems o1(2) by (auto simp: same_size_def)
  from Cons.IH [OF this o1(3)] obtain out where out:
    "accumulate_buffers o1 xs = Inr out" "same_size out o1" "wf_mat out"
    "\<forall>k < n_rows o1 * n_cols o1. mem out ! k = mem o1 ! k + (\<Sum>x\<leftarrow>xs. mem x ! k)"
    by auto
  show ?case
    using o1 out by (auto simp: same_size_def)
qed

lemma for_each_child_length:
  "for_each_child f cs = Inr cs' \<Longrightarrow> length cs' = length cs"
  by (induction cs arbitrary: cs') (auto split: sum.splits)

lemma for_each_child_nth:
  "for_each_child f cs = Inr cs' \<Longrightarrow> i < length cs \<Longrightarrow> f (cs ! i) = Inr (cs' ! i)"
proof (induction cs arbitrary: cs' i)
  case Nil
  then show ?case by simp
next
  case (Cons c cs)
  then show ?case
    by (cases i) (auto split: sum.splits)
qed

lemma for_each_child_total:
  "\<forall>c \<in> set cs. \<exists>c'. f c = Inr c' \<Longrightarrow> \<exists>cs'. for_each_child f cs = Inr cs'"
  by (induction cs) (auto split: sum.splits)

lemma child_Forward_output:
  "child_Forward c input = Inr c' \<Longrightarrow>
   \<exists>s. layer_Forward c (layer_state c) input = Inr (layer_outputParameter c', s)"
  by (auto simp: child_Forward_def split: sum.splits)

text \<open>
  C7. Let an \<open>AddMerge\<close> layer hold at least one child, and let \<open>cs\<close> be its children
  once all have been run forward on the input: run by \<open>Forward\<close> itself when the
  \<open>run\<close> flag is set, each child's output buffer then holding what the child's own
  \<open>Forward\<close> returns on that input, or left as they are when it is not set. If the
  output buffers are well-formed matrices of one shape, \<open>Forward\<close> succeeds, and its
  output has that shape and is, element by element, the sum of the output buffers of
  all the children.
\<close>

theorem AddMerge_Forward_sum:
  assumes "merge_network am \<noteq> []"
    and "Forward_children am input = Inr cs"
    and "\<forall>c \<in> set cs. same_size (layer_outputParameter c) (layer_outputParameter (hd cs)) \<and>
                       wf_mat (layer_outputParameter c)"
  shows "\<exists>output. AddMerge_Forward am input = Inr (output, am\<lparr>merge_network := cs\<rparr>) \<and>
           same_size output (layer_outputParameter (hd cs)) \<and> wf_mat output \<and>
           (\<forall>k < n_rows output * n_cols output.
              mem output ! k = (\<Sum>c\<leftarrow>cs. mem (layer_outputParameter c) ! k)) \<and>
           length cs = length (merge_network am) \<and>
           (merge_run am \<longrightarrow>
              (\<forall>i < length cs. \<exists>s.
                 layer_Forward (merge_network am ! i) (layer_state (merge_network am ! i)) input
                   = Inr (layer_outputParameter (cs ! i), s)))"
proof -
  have len: "length cs = length (merge_network am)"
    using assms(2) by (auto simp: Forward_children_def for_each_child_length split: if_splits)
  with assms(1) obtain c rest where cs: "cs = c # rest"
    by (cases cs) auto
  have "\<forall>x \<in> set (map layer_outputParameter rest).
          same_size x (layer_outputParameter c) \<and> wf_mat x"
    using assms(3) by (simp add: cs)
  moreover have "wf_mat (layer_outputParameter c)"
    using assms(3) by (simp add: cs)
  ultimately obtain out where out:
    "accumulate_buffers (layer_outputParameter c) (map layer_outputParameter rest) = Inr out"
    "same_size out (layer_outputParameter c)" "wf_mat out"
    "\<forall>k < n_rows (layer_outputParameter c) * n_cols (layer_outputParameter c).
        mem out ! k = mem (layer_outputParameter c) ! k
                        + (\<Sum>x\<leftarrow>map layer_outputParameter rest. mem x ! k)"
    using accumulate_buffers_sum by blast
  have fwd: "AddMerge_Forward am input = Inr (out, am\<lparr>merge_network := cs\<rparr>)"
    using assms(2) out(1) by (simp add: AddMerge_Forward_def cs)
  have sum: "\<forall>k < n_rows out * n_cols out.
               mem out ! k = (\<Sum>c\<leftarrow>cs. mem (layer_outputParameter c) ! k)"
    using out(2,4) by (simp add: cs same_size_def o_def)
  have ran: "\<exists>s. layer_Forward (merge_network am ! i) (layer_state (merge_network am ! i)) input
                   = Inr (layer_outputParameter (cs ! i), s)"
    if "merge_run am" "i < length cs" for i
  proof -
    have "for_each_child (\<lambda>c. child_Forward c input) (merge_network am) = Inr cs"
      using assms(2) that(1) by (simp add: Forward_children_def)
    then have "child_Forward (merge_network am ! i) input = Inr (cs ! i)"
      using that(2) len
        for_each_child_nth [of "\<lambda>c. child_Forward c input" "merge_network am" cs i]
      by simp
    then show ?thesis by (rule child_Forward_output)
  qed
  show ?thesis
    using fwd out(2,3) sum len ran by (auto simp: cs)
qed

theorem AddMerge_Forward_sum_witness:
  "merge_network ((AddMergeType False True)\<lparr>merge_network := [scale_child 1, scale_child 2]\<rparr>) \<noteq> [] \<and>
   Forward_children ((AddMergeType False True)\<lparr>merge_network := [scale_child 1, scale_child 2]\<rparr>)
       \<lparr>n_rows = 3, n_cols = 2, mem = [1, 2, 3, 4, 5, 6]\<rparr>
     = Inr [(scale_child 1)\<lparr>layer_outputParameter :=
               \<lparr>n_rows = 3, n_cols = 2, mem = [1, 2, 3, 4, 5, 6]\<rparr>\<rparr>,
            (scale_child 2)\<lparr>layer_outputParameter :=
               \<lparr>n_rows = 3, n_cols = 2, mem = [2, 4, 6, 8, 10, 12]\<rparr>\<rparr>] \<and>
   AddMerge_Forward ((AddMergeType False True)\<lparr>merge_network := [scale_child 1, scale_child 2]\<rparr>)
       \<lparr>n_rows = 3, n_cols = 2, mem = [1, 2, 3, 4, 5, 6]\<rparr>
     = Inr (\<lparr>n_rows = 3, n_cols = 2, mem = [3, 6, 9, 12, 15, 18]\<rparr>,
            (AddMergeType False True)\<lparr>merge_network :=
              [(scale_child 1)\<lparr>layer_outputParameter :=
                  \<lparr>n_rows = 3, n_cols = 2, mem = [1, 2, 3, 4, 5, 6]\<rparr>\<rparr>,
               (scale_child 2)\<lparr>layer_outputParameter :=
                  \<lparr>n_rows = 3, n_cols = 2, mem = [2, 4, 6, 8, 10, 12]\<rparr>\<rparr>]\<rparr>)"
proof -
  let ?x = "\<lparr>n_rows = 3, n_cols = 2, mem = [1, 2, 3, 4, 5, 6]\<rparr>"
  let ?am = "(AddMergeType False True)\<lparr>merge_network := [scale_child 1, scale_child 2]\<rparr>"
  let ?cs = "[(scale_child 1)\<lparr>layer_outputParameter :=
               \<lparr>n_rows = 3, n_cols = 2, mem = [1, 2, 3, 4, 5, 6]\<rparr>\<rparr>,
            (scale_child 2)\<lparr>layer_outputParameter :=
               \<lparr>n_rows = 3, n_cols = 2, mem = [2, 4, 6, 8, 10, 12]\<rparr>\<rparr>]"
  have h1: "merge_network ?am \<noteq> []" by simp
  have h2: "Forward_children ?am ?x = Inr ?cs"
    by (simp add: Forward_children_def AddMergeType_def child_Forward_def scale_child_def
        mat_times_scalar_def transform_def)
  have h3: "\<forall>c \<in> set ?cs. same_size (layer_outputParameter c) (layer_outputParameter (hd ?cs)) \<and>
                       wf_mat (layer_outputParameter c)"
    by (simp add: same_size_def wf_mat_def)
  have "AddMerge_Forward ?am ?x
     = Inr (\<lparr>n_rows = 3, n_cols = 2, mem = [3, 6, 9, 12, 15, 18]\<rparr>, ?am\<lparr>merge_network := ?cs\<rparr>)"
    using AddMerge_Forward_sum [OF h1 h2 h3]
    by (simp add: AddMerge_Forward_def h2 mat_plus_def same_size_def)
  then show ?thesis using h1 h2 by simp
qed

text \<open>
  C10. Both constructors store the \<open>run\<close> flag they are given. With \<open>run\<close> false,
  \<open>Backward\<close> returns the upstream error \<open>gy\<close> as the downstream error and
  \<open>Gradient\<close> returns, both leaving the layer and every child as they were, whatever
  the children's own \<open>Backward\<close> and \<open>Gradient\<close> would do: none is called.
\<close>

theorem AddMerge_run_false:
  "merge_run (AddMergeType model False :: 's AddMerge) = False \<and>
   merge_run (AddMergeType_owns model False ownsLayers :: 's AddMerge) = False \<and>
   (\<not> merge_run am \<longrightarrow>
      AddMerge_Backward am input gy = Inr (gy, am) \<and>
      AddMerge_Gradient am input err = Inr am)"
  by (simp add: AddMergeType_def AddMergeType_owns_def AddMerge_Backward_def
      AddMerge_Gradient_def)

theorem AddMerge_run_false_witness:
  "\<not> merge_run ((AddMergeType True False)\<lparr>merge_network := [failing_child, failing_child]\<rparr>) \<and>
   AddMerge_Backward ((AddMergeType True False)\<lparr>merge_network := [failing_child, failing_child]\<rparr>)
       \<lparr>n_rows = 1, n_cols = 2, mem = [3, -4]\<rparr> \<lparr>n_rows = 1, n_cols = 2, mem = [5, 7]\<rparr>
     = Inr (\<lparr>n_rows = 1, n_cols = 2, mem = [5, 7]\<rparr>,
            (AddMergeType True False)\<lparr>merge_network := [failing_child, failing_child]\<rparr>) \<and>
   AddMerge_Gradient ((AddMergeType True False)\<lparr>merge_network := [failing_child, failing_child]\<rparr>)
       \<lparr>n_rows = 1, n_cols = 2, mem = [3, -4]\<rparr> \<lparr>n_rows = 1, n_cols = 2, mem = [5, 7]\<rparr>
     = Inr ((AddMergeType True False)\<lparr>merge_network := [failing_child, failing_child]\<rparr>) \<and>
   AddMerge_Backward ((AddMergeType True True)\<lparr>merge_network := [failing_child, failing_child]\<rparr>)
       \<lparr>n_rows = 1, n_cols = 2, mem = [3, -4]\<rparr> \<lparr>n_rows = 1, n_cols = 2, mem = [5, 7]\<rparr>
     = Inl IncompatibleSize"
proof -
  let ?am = "(AddMergeType True False)\<lparr>merge_network := [failing_child, failing_child]\<rparr>"
  let ?x = "\<lparr>n_rows = 1, n_cols = 2, mem = [3, -4]\<rparr>"
  let ?gy = "\<lparr>n_rows = 1, n_cols = 2, mem = [5, 7]\<rparr>"
  have h: "\<not> merge_run ?am"
    by (simp add: AddMergeType_def)
  have "AddMerge_Backward ?am ?x ?gy = Inr (?gy, ?am) \<and> AddMerge_Gradient ?am ?x ?gy = Inr ?am"
    using AddMerge_run_false [of True True ?am ?x ?gy ?gy] h by blast
  moreover have "AddMerge_Backward
       ((AddMergeType True True)\<lparr>merge_network := [failing_child, failing_child]\<rparr>) ?x ?gy
     = Inl IncompatibleSize"
    by (simp add: AddMergeType_def AddMerge_Backward_def child_Backward_def failing_child_def)
  ultimately show ?thesis
    using h by simp
qed


subsection \<open>Linear\<close>

text \<open>
  The accumulator of \<open>ComputeOutputDimensions\<close> holds the sum of the input
  dimensions, modulo \<open>2 ^ 32\<close>.
\<close>

lemma word_of_int_low_bits: "(word_of_int (take_bit 64 k) :: 32 word) = word_of_int k"
  by (simp add: word_of_int_eq_iff min_def)

lemma ucast_down_plus: "(ucast (a + b :: 64 word) :: 32 word) = ucast a + ucast b"
proof -
  have "(ucast (a + b) :: 32 word) = word_of_int (take_bit 64 (uint a + uint b))"
    by (simp add: ucast_eq uint_word_ariths take_bit_eq_mod)
  also have "\<dots> = word_of_int (uint a + uint b)"
    by (rule word_of_int_low_bits)
  also have "\<dots> = ucast a + ucast b"
    unfolding ucast_eq by (simp only: of_int_add)
  finally show ?thesis .
qed

lemma ucast_scast_int: "(ucast (scast (i :: 32 word) :: 64 word) :: 32 word) = i"
proof (rule bit_word_eqI)
  fix n :: nat
  assume n: "n < LENGTH(32)"
  show "bit (ucast (scast i :: 64 word) :: 32 word) n \<longleftrightarrow> bit i n"
  proof (cases "n = 31")
    case True
    then show ?thesis by (simp add: bit_simps)
  next
    case False
    with n have "n < 31" by simp
    then show ?thesis by (simp add: bit_simps min_def)
  qed
qed

lemma accumulate_low_bits:
  "accumulate xs init = init + sum_list (map ucast xs)"
proof (induction xs arbitrary: init)
  case Nil
  then show ?case by simp
next
  case (Cons x xs)
  show ?case
    by (simp add: Cons.IH ucast_down_plus ucast_scast_int add.assoc)
qed

lemma Linear_ComputeOutputDimensions_inSize:
  "map_sum id linear_inSize (Linear_ComputeOutputDimensions l) =
     (if linear_inputDimensions l = [] then Inl IndexOutOfBounds
      else Inr (scast (sum_list (map ucast (linear_inputDimensions l)) :: 32 word)))"
  by (simp add: Linear_ComputeOutputDimensions_def Let_def accumulate_low_bits)

text \<open>
  C1. \<open>ComputeOutputDimensions\<close> of a \<open>Linear\<close> layer whose input dimensions are
  \<open>(3, 2)\<close> sets \<open>inSize\<close>, the input size the layer declares, to \<open>3 + 2 = 5\<close>,
  while a three by two input has \<open>3 * 2 = 6\<close> elements; the weights are sized from the
  5 (for four outputs, \<open>5 * 4 + 4 = 24\<close>). Whatever the input dimensions, \<open>inSize\<close> is
  their sum (through a 32-bit \<open>int\<close>), not the element count they imply.
\<close>

theorem Linear_inSize_sum:
  "map_sum id (\<lambda>l'. (linear_inSize l', Linear_WeightSize l', linear_outputDimensions l'))
     (Linear_ComputeOutputDimensions
        (l\<lparr>linear_inputDimensions := [3, 2], linear_outSize := 4\<rparr>))
     = Inr (5, 24, [4, 1]) \<and>
   element_count [3, 2] = 6 \<and>
   map_sum id linear_inSize (Linear_ComputeOutputDimensions l) =
     (if linear_inputDimensions l = [] then Inl IndexOutOfBounds
      else Inr (scast (sum_list (map ucast (linear_inputDimensions l)) :: 32 word)))"
  using Linear_ComputeOutputDimensions_inSize [of l]
  by (simp add: Linear_ComputeOutputDimensions_def Let_def element_count_def
      Linear_WeightSize_def)


subsection \<open>The network\<close>


text \<open>
  C3. The mutable getter \<open>InputDimensions()\<close> returns the dimensions and changes
  nothing in the network: on a network whose dimensions are resolved the flag
  \<open>inputDimensionsAreSet\<close> is still true after the call. The statement that clears
  the flag is in the overload for a const network.
\<close>

theorem InputDimensions_keeps_flag:
  "InputDimensions net = (ffn_inputDimensions net, net) \<and>
   ffn_inputDimensionsAreSet (snd (InputDimensions example_net)) = True \<and>
   ffn_inputDimensionsAreSet (snd (InputDimensions_const example_net)) = False"
  by (simp add: InputDimensions_def InputDimensions_const_def example_net_def)


subsection \<open>The objective function\<close>

text \<open>
  C2. For stored predictors and responses of \<open>N\<close> data points (well-formed matrices
  of \<open>N\<close> columns each, \<open>N\<close> being what \<open>NumFunctions\<close> returns), every pass and every
  parameter matrix, the windowed evaluation from \<open>begin = 0\<close> with \<open>batchSize = N\<close>
  returns what the whole-dataset evaluation returns: the same loss, or the same failure.
\<close>

theorem Evaluate_window_whole_dataset:
  assumes "wf_mat (ffn_predictors net)" and "wf_mat (ffn_responses net)"
    and "n_cols (ffn_predictors net) = NumFunctions net"
  shows "Evaluate_window pass net parameters 0 (NumFunctions net) = Evaluate pass net parameters"
  using assms cols_all [of "ffn_predictors net"] cols_all [of "ffn_responses net"]
  by (simp add: Evaluate_window_def Evaluate_def NumFunctions_def)

theorem Evaluate_window_whole_dataset_witness:
  "wf_mat (ffn_predictors example_net) \<and> wf_mat (ffn_responses example_net) \<and>
   n_cols (ffn_predictors example_net) = NumFunctions example_net \<and>
   NumFunctions example_net = 3 \<and>
   Evaluate_window example_pass example_net empty_mat 0 3
     = Inr 20 \<and>
   Evaluate example_pass example_net empty_mat
     = Inr 20"
proof -
  have h1: "wf_mat (ffn_predictors example_net)"
    by (simp add: example_net_def wf_mat_def)
  have h2: "wf_mat (ffn_responses example_net)"
    by (simp add: example_net_def wf_mat_def)
  have h3: "n_cols (ffn_predictors example_net) = NumFunctions example_net"
    by (simp add: example_net_def NumFunctions_def)
  have n: "NumFunctions example_net = 3"
    by (simp add: example_net_def NumFunctions_def)
  have e: "Evaluate example_pass example_net empty_mat
             = Inr 20"
    by (simp add: Evaluate_def example_net_def example_pass_def)
  show ?thesis
    using Evaluate_window_whole_dataset [OF h1 h2 h3,
        of example_pass empty_mat]
      h1 h2 h3 n e
    by simp
qed

end
